theory Spec2Isabelle
  imports Main "HOL-Library.Word"
begin

section \<open>The LegalDiscoveryFhe contract\<close>

text \<open>
  A shallow embedding of \<^verbatim>\<open>contracts/Legal_Discovery_Fhe.sol\<close>. Every external or
  public function of the contract is a function from the storage before the call to
  either the error the call reverts with or the storage after it. The pieces the
  contract imports (the FHE library, the decryption oracle, keccak256) and the
  transaction context (\<^verbatim>\<open>msg.sender\<close>, \<^verbatim>\<open>block.timestamp\<close>, \<^verbatim>\<open>address(this)\<close>) are the
  fields of an environment record that every function takes as its first argument.
\<close>

subsection \<open>Value types\<close>

type_synonym address = "160 word"
type_synonym uint256 = "256 word"
type_synonym uint32 = "32 word"
type_synonym bytes32 = "256 word"
type_synonym bytes = "8 word list"

text \<open>
  \<^verbatim>\<open>euint32\<close> and \<^verbatim>\<open>ebool\<close> wrap a \<^verbatim>\<open>bytes32\<close> ciphertext handle; \<^verbatim>\<open>toBytes32\<close> unwraps it.
\<close>

type_synonym euint32 = bytes32
type_synonym ebool = bytes32

definition toBytes32 :: "euint32 \<Rightarrow> bytes32" where
  "toBytes32 h = h"

subsection \<open>Storage\<close>

record Batch =
  id_Batch :: uint256
  open_Batch :: bool

record Document =
  encryptedId :: euint32
  encryptedContent :: euint32

record DecryptionContext =
  batchId :: uint256
  stateHash :: bytes32
  processed :: bool

datatype event =
    OwnershipTransferred address address
  | ProviderAdded address
  | ProviderRemoved address
  | Paused address
  | Unpaused address
  | CooldownSecondsChanged uint256 uint256
  | BatchOpened uint256
  | BatchClosed uint256
  | DocumentSubmitted address uint256 euint32
  | KeywordSearchRequested uint256 uint256 euint32
  | KeywordSearchCompleted uint256 uint256 uint256

text \<open>
  The custom errors of the contract, then the three other ways a call of it reverts:
  \<^verbatim>\<open>require\<close>/\<^verbatim>\<open>revert\<close> with a reason string, the arithmetic-overflow panic of checked
  arithmetic (code 0x11), and \<^verbatim>\<open>abi.decode\<close> on a payload that is too short.
\<close>

datatype error =
    NotOwner
  | NotProvider
  | PausedContract
  | CooldownActive
  | BatchClosedOrInvalid
  | InvalidBatchId
  | ReplayAttempt
  | StateMismatch
  | InvalidProof
  | NotInitialized
  | Error string
  | Panic nat
  | DecodeFailure

text \<open>
  The state is the contract's storage, followed by the two things the contract sends
  out: the events it emitted, oldest first, and the decryption requests it placed with
  the oracle (the request id the oracle returned and the handles to decrypt).
\<close>

record state =
  owner :: address
  isProvider :: "address \<Rightarrow> bool"
  paused :: bool
  cooldownSeconds :: uint256
  lastSubmissionTime :: "address \<Rightarrow> uint256"
  lastDecryptionRequestTime :: "address \<Rightarrow> uint256"
  currentBatchId :: uint256
  batches :: "uint256 \<Rightarrow> Batch"
  batchDocuments :: "uint256 \<Rightarrow> Document list"
  decryptionContexts :: "uint256 \<Rightarrow> DecryptionContext"
  events :: "event list"
  oracleRequests :: "(uint256 \<times> bytes32 list) list"

text \<open>Storage before the constructor runs: every slot is zero.\<close>

definition zero_state :: state where
  "zero_state =
     \<lparr> owner = 0, isProvider = (\<lambda>_. False), paused = False, cooldownSeconds = 0,
       lastSubmissionTime = (\<lambda>_. 0), lastDecryptionRequestTime = (\<lambda>_. 0),
       currentBatchId = 0,
       batches = (\<lambda>_. \<lparr> id_Batch = 0, open_Batch = False \<rparr>),
       batchDocuments = (\<lambda>_. []),
       decryptionContexts = (\<lambda>_. \<lparr> batchId = 0, stateHash = 0, processed = False \<rparr>),
       events = [], oracleRequests = [] \<rparr>"

subsection \<open>Environment\<close>

text \<open>
  \<open>keccak256\<close> hashes ABI-encoded data, given as its sequence of 32-byte words. The
  \<open>FHE_\<close> fields are the functions of the imported FHE library that the contract calls.
  The source writes the conversion of the encrypted comparison result into an encrypted
  0/1 as a conditional expression on the \<^verbatim>\<open>ebool\<close>, \<^verbatim>\<open>isMatch ? FHE.asEuint32(1) : FHE.asEuint32(0)\<close>;
  a contract cannot branch on a ciphertext, so the conditional is the library's encrypted
  selection \<open>FHE_select\<close> of one of the two handles. The library functions are taken as
  total functions of their arguments; \<open>FHE_requestDecryption\<close> gives the request id the
  oracle answers with, and \<open>FHE_checkSignatures\<close> the verdict on a delivery.
\<close>

record env =
  msg_sender :: address
  block_timestamp :: uint256
  this :: address
  keccak256 :: "uint256 list \<Rightarrow> bytes32"
  FHE_asEuint32 :: "uint32 \<Rightarrow> euint32"
  FHE_eq :: "euint32 \<Rightarrow> euint32 \<Rightarrow> ebool"
  FHE_select :: "ebool \<Rightarrow> euint32 \<Rightarrow> euint32 \<Rightarrow> euint32"
  FHE_add :: "euint32 \<Rightarrow> euint32 \<Rightarrow> euint32"
  FHE_isInitialized :: "bytes32 \<Rightarrow> bool"
  FHE_requestDecryption :: "bytes32 list \<Rightarrow> uint256"
  FHE_checkSignatures :: "uint256 \<Rightarrow> bytes \<Rightarrow> bytes \<Rightarrow> bool"

subsection \<open>Arithmetic and ABI coding\<close>

text \<open>Addition of two \<^verbatim>\<open>uint256\<close> under Solidity 0.8: it reverts instead of wrapping.\<close>

definition checked_add :: "uint256 \<Rightarrow> uint256 \<Rightarrow> error + uint256" where
  "checked_add a b = (if unat a + unat b < 2 ^ 256 then Inr (a + b) else Inl (Panic 17))"

text \<open>
  \<^verbatim>\<open>abi.encode(cts, address(this))\<close> for a \<^verbatim>\<open>bytes32[]\<close> and an address: the head holds the
  offset of the array (two head words, 64 bytes) and the address, the tail holds the
  length of the array and its elements.
\<close>

definition abi_encode :: "bytes32 list \<Rightarrow> address \<Rightarrow> uint256 list" where
  "abi_encode cts a = [64, ucast a, of_nat (length cts)] @ cts"

text \<open>
  \<^verbatim>\<open>abi.decode(cleartexts, (uint256))\<close>: the first 32 bytes, big-endian; it reverts on
  fewer than 32 bytes.
\<close>

definition abi_decode_uint256 :: "bytes \<Rightarrow> uint256 option" where
  "abi_decode_uint256 bs =
     (if length bs < 32 then None
      else Some (foldl (\<lambda>acc b. acc * 256 + ucast b) 0 (take 32 bs)))"

subsection \<open>Modifiers\<close>

text \<open>Each modifier takes the rest of the call, the \<^verbatim>\<open>_;\<close> of the source, as its last argument.\<close>

definition onlyOwner :: "env \<Rightarrow> state \<Rightarrow> (error + 'a) \<Rightarrow> error + 'a" where
  "onlyOwner e s body = (if msg_sender e \<noteq> owner s then Inl NotOwner else body)"

definition onlyProvider :: "env \<Rightarrow> state \<Rightarrow> (error + 'a) \<Rightarrow> error + 'a" where
  "onlyProvider e s body = (if \<not> isProvider s (msg_sender e) then Inl NotProvider else body)"

definition whenNotPaused :: "state \<Rightarrow> (error + 'a) \<Rightarrow> error + 'a" where
  "whenNotPaused s body = (if paused s then Inl PausedContract else body)"

definition checkSubmissionCooldown :: "env \<Rightarrow> state \<Rightarrow> (error + 'a) \<Rightarrow> error + 'a" where
  "checkSubmissionCooldown e s body =
     (case checked_add (lastSubmissionTime s (msg_sender e)) (cooldownSeconds s) of
        Inl err \<Rightarrow> Inl err
      | Inr t \<Rightarrow> if block_timestamp e < t then Inl CooldownActive else body)"

definition checkDecryptionCooldown :: "env \<Rightarrow> state \<Rightarrow> (error + 'a) \<Rightarrow> error + 'a" where
  "checkDecryptionCooldown e s body =
     (case checked_add (lastDecryptionRequestTime s (msg_sender e)) (cooldownSeconds s) of
        Inl err \<Rightarrow> Inl err
      | Inr t \<Rightarrow> if block_timestamp e < t then Inl CooldownActive else body)"

subsection \<open>Internal functions\<close>

definition emit :: "event \<Rightarrow> state \<Rightarrow> state" where
  "emit ev s = s\<lparr> events := events s @ [ev] \<rparr>"

definition openBatch :: "uint256 \<Rightarrow> state \<Rightarrow> state" where
  "openBatch b s =
     emit (BatchOpened b)
       (s\<lparr> batches := (batches s)(b := \<lparr> id_Batch = b, open_Batch = True \<rparr>) \<rparr>)"

definition hashCiphertexts :: "env \<Rightarrow> bytes32 list \<Rightarrow> bytes32" where
  "hashCiphertexts e cts = keccak256 e (abi_encode cts (this e))"

definition initIfNeeded :: "env \<Rightarrow> bytes32 \<Rightarrow> (error + 'a) \<Rightarrow> error + 'a" where
  "initIfNeeded e val body = (if \<not> FHE_isInitialized e val then Inl NotInitialized else body)"

subsection \<open>Constructor and administration\<close>

definition constructor :: "env \<Rightarrow> state" where
  "constructor e =
     (let s1 = zero_state\<lparr> owner := msg_sender e \<rparr>;
          s2 = s1\<lparr> isProvider := (isProvider s1)(msg_sender e := True) \<rparr>;
          s3 = emit (ProviderAdded (msg_sender e)) s2;
          s4 = s3\<lparr> currentBatchId := 1 \<rparr>;
          s5 = openBatch (currentBatchId s4) s4
      in s5\<lparr> cooldownSeconds := 30 \<rparr>)"

definition transferOwnership :: "env \<Rightarrow> address \<Rightarrow> state \<Rightarrow> error + state" where
  "transferOwnership e newOwner s =
     onlyOwner e s
       (if newOwner = 0 then Inl (Error ''New owner is zero address'')
        else Inr ((emit (OwnershipTransferred (owner s) newOwner) s)\<lparr> owner := newOwner \<rparr>))"

definition addProvider :: "env \<Rightarrow> address \<Rightarrow> state \<Rightarrow> error + state" where
  "addProvider e provider s =
     onlyOwner e s
       (if \<not> isProvider s provider
        then Inr (emit (ProviderAdded provider)
                    (s\<lparr> isProvider := (isProvider s)(provider := True) \<rparr>))
        else Inr s)"

definition removeProvider :: "env \<Rightarrow> address \<Rightarrow> state \<Rightarrow> error + state" where
  "removeProvider e provider s =
     onlyOwner e s
       (if isProvider s provider
        then Inr (emit (ProviderRemoved provider)
                    (s\<lparr> isProvider := (isProvider s)(provider := False) \<rparr>))
        else Inr s)"

definition pause :: "env \<Rightarrow> state \<Rightarrow> error + state" where
  "pause e s =
     onlyOwner e s (whenNotPaused s
       (Inr (emit (Paused (msg_sender e)) (s\<lparr> paused := True \<rparr>))))"

definition unpause :: "env \<Rightarrow> state \<Rightarrow> error + state" where
  "unpause e s =
     onlyOwner e s
       (if \<not> paused s then Inl (Error ''Contract not paused'')
        else Inr (emit (Unpaused (msg_sender e)) (s\<lparr> paused := False \<rparr>)))"

definition setCooldownSeconds :: "env \<Rightarrow> uint256 \<Rightarrow> state \<Rightarrow> error + state" where
  "setCooldownSeconds e newCooldownSeconds s =
     onlyOwner e s
       (if \<not> newCooldownSeconds > 0 then Inl (Error ''Cooldown must be positive'')
        else Inr ((emit (CooldownSecondsChanged (cooldownSeconds s) newCooldownSeconds) s)
                    \<lparr> cooldownSeconds := newCooldownSeconds \<rparr>))"

subsection \<open>Batches and documents\<close>

definition openNewBatch :: "env \<Rightarrow> state \<Rightarrow> error + state" where
  "openNewBatch e s =
     onlyOwner e s (whenNotPaused s
       (case checked_add (currentBatchId s) 1 of
          Inl err \<Rightarrow> Inl err
        | Inr n \<Rightarrow>
            (let s1 = s\<lparr> currentBatchId := n \<rparr>
             in Inr (openBatch (currentBatchId s1) s1))))"

definition closeCurrentBatch :: "env \<Rightarrow> state \<Rightarrow> error + state" where
  "closeCurrentBatch e s =
     onlyOwner e s (whenNotPaused s
       (if open_Batch (batches s (currentBatchId s))
        then Inr (emit (BatchClosed (currentBatchId s))
                    (s\<lparr> batches := (batches s)(currentBatchId s :=
                           (batches s (currentBatchId s))\<lparr> open_Batch := False \<rparr>) \<rparr>))
        else Inr s))"

definition submitDocument :: "env \<Rightarrow> euint32 \<Rightarrow> euint32 \<Rightarrow> state \<Rightarrow> error + state" where
  "submitDocument e encId encContent s =
     onlyProvider e s (whenNotPaused s (checkSubmissionCooldown e s
       (initIfNeeded e encId (initIfNeeded e encContent
         (if \<not> open_Batch (batches s (currentBatchId s)) then Inl BatchClosedOrInvalid
          else
            (let s1 = s\<lparr> batchDocuments := (batchDocuments s)(currentBatchId s :=
                           batchDocuments s (currentBatchId s)
                             @ [\<lparr> encryptedId = encId, encryptedContent = encContent \<rparr>]) \<rparr>;
                 s2 = s1\<lparr> lastSubmissionTime :=
                           (lastSubmissionTime s1)(msg_sender e := block_timestamp e) \<rparr>
             in Inr (emit (DocumentSubmitted (msg_sender e) (currentBatchId s2) encId) s2)))))))"

subsection \<open>Search\<close>

text \<open>
  The loop of \<^verbatim>\<open>searchKeywordInBatch\<close> over the documents of the batch, in the order of
  the array; the last argument is \<^verbatim>\<open>encryptedCount\<close>.
\<close>

fun countLoop :: "env \<Rightarrow> Document list \<Rightarrow> euint32 \<Rightarrow> euint32 \<Rightarrow> euint32" where
  "countLoop e [] encryptedKeyword encryptedCount = encryptedCount"
| "countLoop e (d # ds) encryptedKeyword encryptedCount =
     (let isMatch = FHE_eq e (encryptedContent d) encryptedKeyword;
          matchAsUint = FHE_select e isMatch (FHE_asEuint32 e 1) (FHE_asEuint32 e 0)
      in countLoop e ds encryptedKeyword (FHE_add e encryptedCount matchAsUint))"

definition encryptedCountOf :: "env \<Rightarrow> Document list \<Rightarrow> euint32 \<Rightarrow> euint32" where
  "encryptedCountOf e docs encryptedKeyword =
     countLoop e docs encryptedKeyword (FHE_asEuint32 e 0)"

definition searchKeywordInBatch :: "env \<Rightarrow> uint256 \<Rightarrow> euint32 \<Rightarrow> state \<Rightarrow> error + state" where
  "searchKeywordInBatch e b encryptedKeyword s =
     onlyProvider e s (whenNotPaused s (checkDecryptionCooldown e s
       (initIfNeeded e encryptedKeyword
         (if b = 0 \<or> b > currentBatchId s \<or> \<not> open_Batch (batches s b) then Inl InvalidBatchId
          else if length (batchDocuments s b) = 0 then Inl (Error ''No documents in batch'')
          else
            (let encryptedCount = encryptedCountOf e (batchDocuments s b) encryptedKeyword;
                 cts = [toBytes32 encryptedCount];
                 h = hashCiphertexts e cts;
                 requestId = FHE_requestDecryption e cts;
                 s1 = s\<lparr> oracleRequests := oracleRequests s @ [(requestId, cts)] \<rparr>;
                 s2 = s1\<lparr> decryptionContexts := (decryptionContexts s1)(requestId :=
                           \<lparr> batchId = b, stateHash = h, processed = False \<rparr>) \<rparr>;
                 s3 = s2\<lparr> lastDecryptionRequestTime :=
                           (lastDecryptionRequestTime s2)(msg_sender e := block_timestamp e) \<rparr>
             in Inr (emit (KeywordSearchRequested requestId b encryptedKeyword) s3))))))"

subsection \<open>Callback\<close>

text \<open>
  \<^verbatim>\<open>cts\<close> is allocated with \<^verbatim>\<open>new bytes32[](1)\<close>, one zero word, and the source does not
  write to it before hashing it.
\<close>

definition myCallback :: "env \<Rightarrow> uint256 \<Rightarrow> bytes \<Rightarrow> bytes \<Rightarrow> state \<Rightarrow> error + state" where
  "myCallback e requestId cleartexts proof s =
     (if processed (decryptionContexts s requestId) then Inl ReplayAttempt
      else
        (let cts = replicate 1 (0 :: bytes32)
         in if stateHash (decryptionContexts s requestId)
                 \<noteq> keccak256 e (abi_encode cts (this e))
            then Inl StateMismatch
            else if \<not> FHE_checkSignatures e requestId cleartexts proof then Inl InvalidProof
            else
              (case abi_decode_uint256 cleartexts of
                 None \<Rightarrow> Inl DecodeFailure
               | Some count \<Rightarrow>
                   (let s1 = s\<lparr> decryptionContexts := (decryptionContexts s)(requestId :=
                                  (decryptionContexts s requestId)\<lparr> processed := True \<rparr>) \<rparr>
                    in Inr (emit (KeywordSearchCompleted requestId
                                    (batchId (decryptionContexts s1 requestId)) count) s1)))))"

subsection \<open>Transactions\<close>

text \<open>
  A call that reverts undoes everything it did: the state after a failed call is the
  state before it. \<open>transact\<close> gives the state after a call together with the error, if
  any.
\<close>

definition transact :: "(state \<Rightarrow> error + state) \<Rightarrow> state \<Rightarrow> state \<times> error option" where
  "transact f s = (case f s of Inl err \<Rightarrow> (s, Some err) | Inr s' \<Rightarrow> (s', None))"

subsection \<open>The error taxonomy of the specification\<close>

text \<open>
  The specification names eight classes of error. Each error the contract can revert
  with falls in one of them by what it reports; the arithmetic panic and the decoding
  failure fall in none. No error of the contract reports an unknown request id.
\<close>

datatype error_class =
    AuthorizationError
  | LifecycleError
  | RateLimitError
  | ValidationError
  | ReplayError
  | IntegrityError
  | AuthenticityError
  | NotFoundError
  | Unclassified

fun classify :: "error \<Rightarrow> error_class" where
  "classify NotOwner = AuthorizationError"
| "classify NotProvider = AuthorizationError"
| "classify PausedContract = LifecycleError"
| "classify BatchClosedOrInvalid = LifecycleError"
| "classify InvalidBatchId = LifecycleError"
| "classify CooldownActive = RateLimitError"
| "classify NotInitialized = ValidationError"
| "classify ReplayAttempt = ReplayError"
| "classify StateMismatch = IntegrityError"
| "classify InvalidProof = AuthenticityError"
| "classify (Error msg) =
     (if msg = ''Contract not paused'' then LifecycleError else ValidationError)"
| "classify (Panic _) = Unclassified"
| "classify DecodeFailure = Unclassified"

subsection \<open>Plaintexts behind the handles\<close>

text \<open>
  The contract never sees a plaintext. What a handle decrypts to is a function \<open>dec\<close>
  (for \<^verbatim>\<open>euint32\<close>) or \<open>decb\<close> (for \<^verbatim>\<open>ebool\<close>) that only the decryption oracle computes. The
  FHE library is faithful to them when each operation on handles does to the plaintexts
  what its name says; \<^verbatim>\<open>euint32\<close> addition wraps at \<open>2 ^ 32\<close>.
\<close>

definition faithful :: "env \<Rightarrow> (euint32 \<Rightarrow> uint32) \<Rightarrow> (ebool \<Rightarrow> bool) \<Rightarrow> bool" where
  "faithful e dec decb \<longleftrightarrow>
     (\<forall>v. dec (FHE_asEuint32 e v) = v) \<and>
     (\<forall>a b. decb (FHE_eq e a b) = (dec a = dec b)) \<and>
     (\<forall>c a b. dec (FHE_select e c a b) = (if decb c then dec a else dec b)) \<and>
     (\<forall>a b. dec (FHE_add e a b) = dec a + dec b)"

subsection \<open>An environment to run the contract in\<close>

text \<open>
  A stand-in for the imported pieces, so that the functions above can be evaluated on
  concrete inputs. The handle of the plaintext \<open>v\<close> is \<open>v + 1\<close>, so that no handle of a
  value is the uninitialised handle 0; the handle of an encrypted boolean is 1 for false
  and 2 for true. The digest is a polynomial in the words of its input.
\<close>

definition sim_asEuint32 :: "uint32 \<Rightarrow> euint32" where
  "sim_asEuint32 v = ucast v + 1"

definition sim_dec :: "euint32 \<Rightarrow> uint32" where
  "sim_dec h = ucast (h - 1)"

definition sim_decb :: "ebool \<Rightarrow> bool" where
  "sim_decb c = (c = 2)"

definition sim_eq :: "euint32 \<Rightarrow> euint32 \<Rightarrow> ebool" where
  "sim_eq a b = (if sim_dec a = sim_dec b then 2 else 1)"

definition sim_select :: "ebool \<Rightarrow> euint32 \<Rightarrow> euint32 \<Rightarrow> euint32" where
  "sim_select c a b = (if c = 2 then a else b)"

definition sim_add :: "euint32 \<Rightarrow> euint32 \<Rightarrow> euint32" where
  "sim_add a b = sim_asEuint32 (sim_dec a + sim_dec b)"

definition sim_digest :: "uint256 list \<Rightarrow> bytes32" where
  "sim_digest ws = foldl (\<lambda>acc w. acc * 31 + w + 1) 7 ws"

definition sim_env :: "address \<Rightarrow> uint256 \<Rightarrow> uint256 \<Rightarrow> env" where
  "sim_env sender now rid =
     \<lparr> msg_sender = sender, block_timestamp = now, this = 4096,
       keccak256 = sim_digest,
       FHE_asEuint32 = sim_asEuint32, FHE_eq = sim_eq, FHE_select = sim_select,
       FHE_add = sim_add, FHE_isInitialized = (\<lambda>h. h \<noteq> 0),
       FHE_requestDecryption = (\<lambda>_. rid),
       FHE_checkSignatures = (\<lambda>_ _ p. p \<noteq> []) \<rparr>"

text \<open>
  The same environment with a digest that sends every input to the same word. Under it
  the comparison in \<open>myCallback\<close> succeeds, so a request can be finalised.
\<close>

definition sim_env_flat :: "address \<Rightarrow> uint256 \<Rightarrow> uint256 \<Rightarrow> env" where
  "sim_env_flat sender now rid = (sim_env sender now rid)\<lparr> keccak256 := (\<lambda>_. 1) \<rparr>"

text \<open>
  Runs of the contract. Account 1 deploys it (\<open>sim_s0\<close>) and submits three documents with
  the contents 5, 7 and 5 at times 100, 200 and 300 (\<open>sim_s3\<close>). From there: the owner
  sets the cooldown to the largest \<^verbatim>\<open>uint256\<close> (\<open>sim_s3max\<close>); or, under the flat digest,
  account 1 searches for 5, the oracle answering with request id 7 (\<open>sim_s4\<close>), and the
  result 2 is delivered (\<open>sim_s5\<close>). In \<open>sim_paused\<close> the owner has paused the fresh
  contract.
\<close>

definition sim_s0 :: state where
  "sim_s0 = constructor (sim_env 1 0 0)"

definition sim_s3 :: state where
  "sim_s3 =
     fst (transact (submitDocument (sim_env 1 300 0) 13 (sim_asEuint32 5))
       (fst (transact (submitDocument (sim_env 1 200 0) 12 (sim_asEuint32 7))
         (fst (transact (submitDocument (sim_env 1 100 0) 11 (sim_asEuint32 5)) sim_s0)))))"

definition sim_s3max :: state where
  "sim_s3max =
     fst (transact (setCooldownSeconds (sim_env 1 350 0)
       115792089237316195423570985008687907853269984665640564039457584007913129639935) sim_s3)"

definition sim_s4 :: state where
  "sim_s4 = fst (transact (searchKeywordInBatch (sim_env_flat 1 400 7) 1 (sim_asEuint32 5)) sim_s3)"

definition sim_s5 :: state where
  "sim_s5 = fst (transact (myCallback (sim_env_flat 9 500 0) 7 (replicate 31 0 @ [2]) [1]) sim_s4)"

definition sim_paused :: state where
  "sim_paused = fst (transact (pause (sim_env 1 50 0)) sim_s0)"

subsection \<open>Notions the properties are stated with\<close>

text \<open>
  The number of documents of a batch whose content decrypts to what the keyword
  decrypts to.
\<close>

definition matchCount :: "(euint32 \<Rightarrow> uint32) \<Rightarrow> Document list \<Rightarrow> euint32 \<Rightarrow> nat" where
  "matchCount dec docs encryptedKeyword =
     length (filter (\<lambda>d. dec (encryptedContent d) = dec encryptedKeyword) docs)"

text \<open>
  The comparison of the two cooldown modifiers, \<^verbatim>\<open>block.timestamp < last + cooldownSeconds\<close>,
  where the sum fits in 256 bits.
\<close>

definition cooldownActive :: "uint256 \<Rightarrow> uint256 \<Rightarrow> uint256 \<Rightarrow> bool" where
  "cooldownActive now lastTime cd \<longleftrightarrow> unat lastTime + unat cd < 2 ^ 256 \<and> now < lastTime + cd"

section \<open>Auxiliary facts\<close>

lemmas gate_defs = onlyOwner_def onlyProvider_def whenNotPaused_def
  checkSubmissionCooldown_def checkDecryptionCooldown_def initIfNeeded_def

lemmas step_defs = emit_def openBatch_def hashCiphertexts_def toBytes32_def checked_add_def

lemma transact_Inl: "f s = Inl err \<Longrightarrow> transact f s = (s, Some err)"
  by (simp add: transact_def)

lemma transact_Inr: "f s = Inr s' \<Longrightarrow> transact f s = (s', None)"
  by (simp add: transact_def)

text \<open>What a successful call of the two cooldown-gated functions leaves behind.\<close>

lemma submit_success:
  assumes "submitDocument e i c s = Inr s'"
  shows "s' = s\<lparr> batchDocuments := (batchDocuments s)(currentBatchId s :=
                   batchDocuments s (currentBatchId s) @ [\<lparr> encryptedId = i, encryptedContent = c \<rparr>]),
               lastSubmissionTime := (lastSubmissionTime s)(msg_sender e := block_timestamp e),
               events := events s @ [DocumentSubmitted (msg_sender e) (currentBatchId s) i] \<rparr>"
  using assms
  by (auto simp: submitDocument_def gate_defs step_defs Let_def split: if_splits sum.splits)

lemma search_success:
  assumes "searchKeywordInBatch e b kw s = Inr s'"
  shows "s' = s\<lparr> oracleRequests := oracleRequests s @
                  [(FHE_requestDecryption e [encryptedCountOf e (batchDocuments s b) kw],
                    [encryptedCountOf e (batchDocuments s b) kw])],
               decryptionContexts := (decryptionContexts s)
                  (FHE_requestDecryption e [encryptedCountOf e (batchDocuments s b) kw] :=
                     \<lparr> batchId = b,
                       stateHash = keccak256 e
                         (abi_encode [encryptedCountOf e (batchDocuments s b) kw] (this e)),
                       processed = False \<rparr>),
               lastDecryptionRequestTime :=
                  (lastDecryptionRequestTime s)(msg_sender e := block_timestamp e),
               events := events s @ [KeywordSearchRequested
                  (FHE_requestDecryption e [encryptedCountOf e (batchDocuments s b) kw]) b kw] \<rparr>"
  using assms
  by (auto simp: searchKeywordInBatch_def gate_defs step_defs Let_def split: if_splits sum.splits)

text \<open>
  Who writes the table of decryption contexts: \<open>myCallback\<close> sets the flag of its
  request, \<open>searchKeywordInBatch\<close> writes the entry of the request id the oracle
  returns, and no other function touches the table. An entry whose flag is set is
  therefore rewritten only if the oracle hands out its request id a second time.
\<close>

lemma decryptionContexts_frame:
  "transferOwnership e a s = Inr s' \<Longrightarrow> decryptionContexts s' = decryptionContexts s"
  "addProvider e a s = Inr s' \<Longrightarrow> decryptionContexts s' = decryptionContexts s"
  "removeProvider e a s = Inr s' \<Longrightarrow> decryptionContexts s' = decryptionContexts s"
  "pause e s = Inr s' \<Longrightarrow> decryptionContexts s' = decryptionContexts s"
  "unpause e s = Inr s' \<Longrightarrow> decryptionContexts s' = decryptionContexts s"
  "setCooldownSeconds e n s = Inr s' \<Longrightarrow> decryptionContexts s' = decryptionContexts s"
  "openNewBatch e s = Inr s' \<Longrightarrow> decryptionContexts s' = decryptionContexts s"
  "closeCurrentBatch e s = Inr s' \<Longrightarrow> decryptionContexts s' = decryptionContexts s"
  "submitDocument e i c s = Inr s' \<Longrightarrow> decryptionContexts s' = decryptionContexts s"
  by (auto simp: transferOwnership_def addProvider_def removeProvider_def pause_def unpause_def
      setCooldownSeconds_def openNewBatch_def closeCurrentBatch_def submitDocument_def
      gate_defs step_defs Let_def split: if_splits sum.splits)

lemma search_other_contexts:
  assumes "searchKeywordInBatch e b kw s = Inr s'"
      and "r \<noteq> FHE_requestDecryption e [encryptedCountOf e (batchDocuments s b) kw]"
  shows "decryptionContexts s' r = decryptionContexts s r"
  using assms(2) by (subst search_success [OF assms(1)]) simp

subsection \<open>The stand-in environment and the runs\<close>

lemma ucast_32_256: "ucast (ucast (v :: uint32) :: bytes32) = v"
  by (rule ucast_up_ucast_id) (simp add: is_up)

lemma sim_faithful: "faithful (sim_env a t r) sim_dec sim_decb"
  by (simp add: faithful_def sim_env_def sim_dec_def sim_decb_def sim_asEuint32_def
      sim_eq_def sim_select_def sim_add_def ucast_32_256)

lemma foldl_zero_bytes:
  "foldl (\<lambda>acc b. acc * 256 + ucast b) (0 :: uint256) (replicate n (0 :: 8 word)) = 0"
  by (induction n) simp_all

lemma abi_decode_small: "abi_decode_uint256 (replicate 31 0 @ [b]) = Some (ucast b)"
  by (simp add: abi_decode_uint256_def foldl_zero_bytes)

lemma sim_s0_eq:
  "sim_s0 = \<lparr> owner = 1, isProvider = (\<lambda>_. False)(1 := True), paused = False,
       cooldownSeconds = 30,
       lastSubmissionTime = (\<lambda>_. 0), lastDecryptionRequestTime = (\<lambda>_. 0),
       currentBatchId = 1,
       batches = (\<lambda>_. \<lparr> id_Batch = 0, open_Batch = False \<rparr>)
                   (1 := \<lparr> id_Batch = 1, open_Batch = True \<rparr>),
       batchDocuments = (\<lambda>_. []),
       decryptionContexts = (\<lambda>_. \<lparr> batchId = 0, stateHash = 0, processed = False \<rparr>),
       events = [ProviderAdded 1, BatchOpened 1], oracleRequests = [] \<rparr>"
  by (simp add: sim_s0_def constructor_def zero_state_def step_defs sim_env_def Let_def)

lemma sim_s3_eq:
  "sim_s3 = \<lparr> owner = 1, isProvider = (\<lambda>_. False)(1 := True), paused = False,
       cooldownSeconds = 30,
       lastSubmissionTime = (\<lambda>_. 0)(1 := 300), lastDecryptionRequestTime = (\<lambda>_. 0),
       currentBatchId = 1,
       batches = (\<lambda>_. \<lparr> id_Batch = 0, open_Batch = False \<rparr>)
                   (1 := \<lparr> id_Batch = 1, open_Batch = True \<rparr>),
       batchDocuments = (\<lambda>_. [])(1 := [\<lparr> encryptedId = 11, encryptedContent = 6 \<rparr>,
          \<lparr> encryptedId = 12, encryptedContent = 8 \<rparr>,
          \<lparr> encryptedId = 13, encryptedContent = 6 \<rparr>]),
       decryptionContexts = (\<lambda>_. \<lparr> batchId = 0, stateHash = 0, processed = False \<rparr>),
       events = [ProviderAdded 1, BatchOpened 1, DocumentSubmitted 1 1 11,
          DocumentSubmitted 1 1 12, DocumentSubmitted 1 1 13],
       oracleRequests = [] \<rparr>"
  by (simp add: sim_s3_def sim_s0_eq transact_def submitDocument_def gate_defs step_defs
      sim_env_def sim_asEuint32_def Let_def)

lemma sim_s3max_eq:
  "sim_s3max = sim_s3\<lparr> cooldownSeconds :=
         115792089237316195423570985008687907853269984665640564039457584007913129639935,
       events := events sim_s3 @ [CooldownSecondsChanged 30
         115792089237316195423570985008687907853269984665640564039457584007913129639935] \<rparr>"
  by (simp add: sim_s3max_def sim_s3_eq transact_def setCooldownSeconds_def gate_defs step_defs
      sim_env_def)

lemma sim_s4_eq:
  "sim_s4 = sim_s3\<lparr> oracleRequests := [(7, [3])],
            decryptionContexts := (decryptionContexts sim_s3)(7 :=
               \<lparr> batchId = 1, stateHash = 1, processed = False \<rparr>),
            lastDecryptionRequestTime := (\<lambda>_. 0)(1 := 400),
            events := events sim_s3 @ [KeywordSearchRequested 7 1 6] \<rparr>"
  by (simp add: sim_s4_def transact_def sim_s3_eq searchKeywordInBatch_def encryptedCountOf_def
      gate_defs step_defs sim_env_flat_def
      sim_env_def sim_asEuint32_def sim_dec_def sim_eq_def sim_select_def sim_add_def Let_def)

lemma sim_s5_eq:
  "sim_s5 = sim_s4\<lparr> decryptionContexts := (decryptionContexts sim_s4)(7 :=
               \<lparr> batchId = 1, stateHash = 1, processed = True \<rparr>),
            events := events sim_s4 @ [KeywordSearchCompleted 7 1 2] \<rparr>"
  by (simp add: sim_s5_def transact_def sim_s4_eq sim_s3_eq myCallback_def abi_decode_small
      emit_def sim_env_flat_def sim_env_def Let_def)

lemma sim_paused_eq:
  "sim_paused = sim_s0\<lparr> paused := True, events := events sim_s0 @ [Paused 1] \<rparr>"
  by (simp add: sim_paused_def sim_s0_eq transact_def pause_def gate_defs step_defs sim_env_def)

text \<open>The search for 5 in \<open>sim_s3\<close> under the polynomial digest; the count handle is 3.\<close>

lemma sim_search5:
  "searchKeywordInBatch (sim_env 1 400 7) 1 (sim_asEuint32 5) sim_s3 =
     Inr (sim_s3\<lparr> oracleRequests := [(7, [3])],
            decryptionContexts := (decryptionContexts sim_s3)(7 :=
               \<lparr> batchId = 1, stateHash = sim_digest (abi_encode [3] 4096), processed = False \<rparr>),
            lastDecryptionRequestTime := (\<lambda>_. 0)(1 := 400),
            events := events sim_s3 @ [KeywordSearchRequested 7 1 6] \<rparr>)"
  by (simp add: sim_s3_eq searchKeywordInBatch_def encryptedCountOf_def gate_defs step_defs
      sim_env_def sim_asEuint32_def sim_dec_def sim_eq_def sim_select_def sim_add_def Let_def)

section \<open>Properties\<close>

subsection \<open>The state hash at callback time\<close>

text \<open>
  C1. The specification asks that the callback recompute the state hash from the handle
  the request was bound to, so that the check passes for every request whose handle has
  not changed. The contract hashes the freshly allocated array instead. For a request
  that \<open>searchKeywordInBatch\<close> has just registered, delivered under the same digest and
  contract address, \<open>myCallback\<close> reverts with \<open>StateMismatch\<close> exactly when the digest of
  the bound handle differs from the digest of the array holding the zero word; the
  handle itself plays no part in the comparison.
\<close>

theorem myCallback_stateHash_check:
  assumes "searchKeywordInBatch e b kw s = Inr s'"
      and "keccak256 e' = keccak256 e" and "this e' = this e"
  shows "myCallback e'
           (FHE_requestDecryption e [toBytes32 (encryptedCountOf e (batchDocuments s b) kw)])
           cleartexts proof s' = Inl StateMismatch
         \<longleftrightarrow>
         keccak256 e (abi_encode [toBytes32 (encryptedCountOf e (batchDocuments s b) kw)] (this e))
           \<noteq> keccak256 e (abi_encode [0] (this e))"
  by (subst search_success [OF assms(1)])
     (simp add: myCallback_def toBytes32_def assms(2,3) Let_def split: option.splits)

text \<open>
  The run: after the three submissions, account 1 searches batch 1 for 5 and the oracle
  hands out request id 7; the delivery of the count 2 for request 7, with a proof the
  oracle check accepts, is rejected.
\<close>

theorem myCallback_stateHash_check_witness:
  "searchKeywordInBatch (sim_env 1 400 7) 1 (sim_asEuint32 5) sim_s3 =
     Inr (fst (transact (searchKeywordInBatch (sim_env 1 400 7) 1 (sim_asEuint32 5)) sim_s3))
   \<and> myCallback (sim_env 9 500 0) 7 (replicate 31 0 @ [2]) [1]
        (fst (transact (searchKeywordInBatch (sim_env 1 400 7) 1 (sim_asEuint32 5)) sim_s3))
      = Inl StateMismatch"
proof -
  let ?e = "sim_env 1 400 7" and ?e' = "sim_env 9 500 0"
  let ?s' = "fst (transact (searchKeywordInBatch ?e 1 (sim_asEuint32 5)) sim_s3)"
  have run: "searchKeywordInBatch ?e 1 (sim_asEuint32 5) sim_s3 = Inr ?s'"
    by (simp add: sim_search5 transact_def)
  have env: "keccak256 ?e' = keccak256 ?e" "this ?e' = this ?e"
    by (simp_all add: sim_env_def)
  have rid: "FHE_requestDecryption ?e
               [toBytes32 (encryptedCountOf ?e (batchDocuments sim_s3 1) (sim_asEuint32 5))] = 7"
    by (simp add: sim_env_def)
  have differ: "keccak256 ?e (abi_encode
                  [toBytes32 (encryptedCountOf ?e (batchDocuments sim_s3 1) (sim_asEuint32 5))]
                  (this ?e))
                \<noteq> keccak256 ?e (abi_encode [0] (this ?e))"
    by (simp add: sim_s3_eq encryptedCountOf_def toBytes32_def abi_encode_def sim_env_def
        sim_asEuint32_def sim_dec_def sim_eq_def sim_select_def sim_add_def sim_digest_def)
  show ?thesis
    using myCallback_stateHash_check [OF run env, of "replicate 31 0 @ [2]" "[1]"] run differ
    by (simp only: rid) simp
qed

subsection \<open>The encrypted match count\<close>

text \<open>
  Over a faithful library, each pass of the loop adds 1 to the plaintext of the
  accumulator when the contents of the document decrypt to what the keyword decrypts
  to, and 0 otherwise; the sum is taken in \<^verbatim>\<open>uint32\<close>.
\<close>

lemma countLoop_dec:
  assumes "faithful e dec decb"
  shows "dec (countLoop e docs kw acc) = dec acc + of_nat (matchCount dec docs kw)"
  using assms
proof (induction docs arbitrary: acc)
  case Nil
  then show ?case by (simp add: matchCount_def)
next
  case (Cons d ds)
  have step: "dec (FHE_add e acc (FHE_select e (FHE_eq e (encryptedContent d) kw)
                 (FHE_asEuint32 e 1) (FHE_asEuint32 e 0)))
              = dec acc + (if dec (encryptedContent d) = dec kw then 1 else 0)"
    using Cons.prems by (simp add: faithful_def)
  show ?case
    using Cons.IH [OF Cons.prems] step by (simp add: matchCount_def Let_def)
qed

lemma encryptedCountOf_dec:
  assumes "faithful e dec decb"
  shows "dec (encryptedCountOf e docs kw) = of_nat (matchCount dec docs kw)"
proof -
  have "dec (FHE_asEuint32 e 0) = 0" using assms by (simp add: faithful_def)
  then show ?thesis using countLoop_dec [OF assms] by (simp add: encryptedCountOf_def)
qed

lemma matchCount_le: "matchCount dec docs kw \<le> length docs"
  by (simp add: matchCount_def)

text \<open>
  C2. Over a faithful library, a successful \<open>searchKeywordInBatch\<close> sends the oracle one
  handle, the accumulator of the loop over the documents of the batch, and what that
  handle decrypts to is the number of documents whose contents equal the keyword. The
  accumulator is an \<^verbatim>\<open>euint32\<close>: the equality holds as it stands for every batch of fewer
  than \<open>2 ^ 32\<close> documents, which is every batch one call can walk through, and
  modulo \<open>2 ^ 32\<close> without that bound.
\<close>

theorem encryptedCount_plaintext:
  assumes "faithful e dec decb"
      and "searchKeywordInBatch e b kw s = Inr s'"
  shows "oracleRequests s' = oracleRequests s @
           [(FHE_requestDecryption e [toBytes32 (encryptedCountOf e (batchDocuments s b) kw)],
             [toBytes32 (encryptedCountOf e (batchDocuments s b) kw)])]
       \<and> dec (encryptedCountOf e (batchDocuments s b) kw)
           = of_nat (matchCount dec (batchDocuments s b) kw)
       \<and> unat (dec (encryptedCountOf e (batchDocuments s b) kw))
           = matchCount dec (batchDocuments s b) kw mod 2 ^ 32
       \<and> (length (batchDocuments s b) < 2 ^ 32 \<longrightarrow>
            unat (dec (encryptedCountOf e (batchDocuments s b) kw))
              = matchCount dec (batchDocuments s b) kw)"
proof -
  let ?docs = "batchDocuments s b"
  have req: "oracleRequests s' = oracleRequests s @
           [(FHE_requestDecryption e [toBytes32 (encryptedCountOf e ?docs kw)],
             [toBytes32 (encryptedCountOf e ?docs kw)])]"
    by (subst search_success [OF assms(2)]) (simp add: toBytes32_def)
  have eq: "dec (encryptedCountOf e ?docs kw) = of_nat (matchCount dec ?docs kw)"
    by (rule encryptedCountOf_dec [OF assms(1)])
  have md: "unat (dec (encryptedCountOf e ?docs kw)) = matchCount dec ?docs kw mod 2 ^ 32"
    by (simp add: eq unat_of_nat)
  have ex: "unat (dec (encryptedCountOf e ?docs kw)) = matchCount dec ?docs kw"
    if "length ?docs < 2 ^ 32"
  proof -
    have "matchCount dec ?docs kw < 2 ^ 32"
      using that matchCount_le [of dec ?docs kw] by linarith
    then show ?thesis by (simp add: md)
  qed
  show ?thesis using req eq md ex by blast
qed

text \<open>
  The example of the specification: in the batch with the contents 5, 7 and 5, the
  search for 5 counts 2 and the search for 9 counts 0.
\<close>

theorem encryptedCount_plaintext_witness:
  "faithful (sim_env 1 400 7) sim_dec sim_decb
   \<and> length (batchDocuments sim_s3 1) < 2 ^ 32
   \<and> unat (sim_dec (encryptedCountOf (sim_env 1 400 7) (batchDocuments sim_s3 1)
        (sim_asEuint32 5))) = 2
   \<and> unat (sim_dec (encryptedCountOf (sim_env 1 400 7) (batchDocuments sim_s3 1)
        (sim_asEuint32 9))) = 0"
proof -
  let ?e = "sim_env 1 400 7"
  have f: "faithful ?e sim_dec sim_decb" by (rule sim_faithful)
  have len: "length (batchDocuments sim_s3 1) < 2 ^ 32"
    by (simp add: sim_s3_eq)
  have run5: "searchKeywordInBatch ?e 1 (sim_asEuint32 5) sim_s3 =
      Inr (fst (transact (searchKeywordInBatch ?e 1 (sim_asEuint32 5)) sim_s3))"
    by (simp add: sim_search5 transact_def)
  have run9: "searchKeywordInBatch ?e 1 (sim_asEuint32 9) sim_s3 =
      Inr (fst (transact (searchKeywordInBatch ?e 1 (sim_asEuint32 9)) sim_s3))"
    by (simp add: transact_def sim_s3_eq searchKeywordInBatch_def gate_defs step_defs
        sim_env_def sim_asEuint32_def Let_def)
  have m5: "matchCount sim_dec (batchDocuments sim_s3 1) (sim_asEuint32 5) = 2"
    by (simp add: matchCount_def sim_s3_eq sim_dec_def sim_asEuint32_def)
  have m9: "matchCount sim_dec (batchDocuments sim_s3 1) (sim_asEuint32 9) = 0"
    by (simp add: matchCount_def sim_s3_eq sim_dec_def sim_asEuint32_def)
  show ?thesis
    using encryptedCount_plaintext [OF f run5] encryptedCount_plaintext [OF f run9] f len
    by (simp add: m5 m9)
qed

subsection \<open>Unknown and finalised requests\<close>

text \<open>
  C3, as amended. The contract has no error for an unknown request id and
  \<open>myCallback\<close> does not look the request up. A request id that no search has
  registered holds the zero context; the callback compares its zero \<open>stateHash\<close> with
  the digest it computes, and where that digest is not the zero word the call reverts
  with \<open>StateMismatch\<close>, an integrity error, leaving the state as it was.
\<close>

theorem myCallback_unknown_requestId:
  assumes "decryptionContexts s requestId = \<lparr> batchId = 0, stateHash = 0, processed = False \<rparr>"
      and "keccak256 e (abi_encode [0] (this e)) \<noteq> 0"
  shows "myCallback e requestId cleartexts proof s = Inl StateMismatch
       \<and> classify StateMismatch = IntegrityError
       \<and> transact (myCallback e requestId cleartexts proof) s = (s, Some StateMismatch)"
proof -
  have "myCallback e requestId cleartexts proof s = Inl StateMismatch"
    using assms by (auto simp: myCallback_def)
  then show ?thesis by (simp add: transact_Inl)
qed

theorem myCallback_unknown_requestId_witness:
  "decryptionContexts sim_s0 7 = \<lparr> batchId = 0, stateHash = 0, processed = False \<rparr>
   \<and> keccak256 (sim_env 9 500 0) (abi_encode [0] (this (sim_env 9 500 0))) \<noteq> 0
   \<and> transact (myCallback (sim_env 9 500 0) 7 (replicate 31 0 @ [2]) [1]) sim_s0
       = (sim_s0, Some StateMismatch)"
proof -
  have a: "decryptionContexts sim_s0 7 = \<lparr> batchId = 0, stateHash = 0, processed = False \<rparr>"
    by (simp add: sim_s0_eq)
  have b: "keccak256 (sim_env 9 500 0) (abi_encode [0] (this (sim_env 9 500 0))) \<noteq> 0"
    by (simp add: sim_env_def abi_encode_def sim_digest_def)
  show ?thesis using myCallback_unknown_requestId [OF a b] a b by blast
qed

text \<open>
  The claim as it stands fails on the fresh contract: the delivery for request id 7,
  which nobody requested, is rejected with \<open>StateMismatch\<close>, not with an error of the
  not-found class.
\<close>

theorem myCallback_unknown_not_NotFound:
  "decryptionContexts sim_s0 7 = \<lparr> batchId = 0, stateHash = 0, processed = False \<rparr>
   \<and> myCallback (sim_env 9 500 0) 7 (replicate 31 0 @ [2]) [1] sim_s0 = Inl StateMismatch
   \<and> classify StateMismatch \<noteq> NotFoundError"
  by (simp add: sim_s0_eq myCallback_def abi_encode_def sim_env_def sim_digest_def)

text \<open>
  C4. Once the context of a request id has \<open>processed\<close> set, every further call of
  \<open>myCallback\<close> for that id reverts with \<open>ReplayAttempt\<close> and the state, with the events
  recorded so far, stays as it was. No call of \<open>myCallback\<close>, for this id or another,
  clears the flag; a call that succeeds found the flag of its own request clear, sets
  it, and records one completion event.
\<close>

theorem myCallback_replay:
  assumes "processed (decryptionContexts s requestId)"
  shows "myCallback e requestId cleartexts proof s = Inl ReplayAttempt
       \<and> transact (myCallback e requestId cleartexts proof) s = (s, Some ReplayAttempt)
       \<and> processed (decryptionContexts (fst (transact (myCallback e' r' c' p') s)) requestId)
       \<and> (\<forall>s'. myCallback e' r' c' p' s = Inr s' \<longrightarrow>
             \<not> processed (decryptionContexts s r') \<and> processed (decryptionContexts s' r')
             \<and> (\<exists>count. events s' = events s @
                   [KeywordSearchCompleted r' (batchId (decryptionContexts s r')) count]))"
proof -
  have 1: "myCallback e requestId cleartexts proof s = Inl ReplayAttempt"
    using assms by (simp add: myCallback_def)
  have 3: "processed (decryptionContexts (fst (transact (myCallback e' r' c' p') s)) requestId)"
    using assms
    by (auto simp: transact_def myCallback_def emit_def Let_def
        split: sum.splits option.splits if_splits)
  have 4: "\<not> processed (decryptionContexts s r') \<and> processed (decryptionContexts s' r')
           \<and> (\<exists>count. events s' = events s @
                 [KeywordSearchCompleted r' (batchId (decryptionContexts s r')) count])"
    if "myCallback e' r' c' p' s = Inr s'" for s'
    using that
    by (auto simp: myCallback_def emit_def Let_def split: option.splits if_splits)
  show ?thesis using 1 3 4 by (simp add: transact_Inl)
qed

text \<open>
  The run under the flat digest: the result 2 for request 7 has been delivered; a
  second delivery, of the result 3, is rejected and the recorded count stays 2.
\<close>

theorem myCallback_replay_witness:
  "processed (decryptionContexts sim_s5 7)
   \<and> transact (myCallback (sim_env_flat 9 600 0) 7 (replicate 31 0 @ [3]) [1]) sim_s5
       = (sim_s5, Some ReplayAttempt)
   \<and> events sim_s5 = events sim_s3 @ [KeywordSearchRequested 7 1 6, KeywordSearchCompleted 7 1 2]"
proof -
  have p: "processed (decryptionContexts sim_s5 7)"
    by (simp add: sim_s5_eq)
  have ev: "events sim_s5 =
      events sim_s3 @ [KeywordSearchRequested 7 1 6, KeywordSearchCompleted 7 1 2]"
    by (simp add: sim_s5_eq sim_s4_eq)
  show ?thesis
    using myCallback_replay [OF p, of "sim_env_flat 9 600 0" "replicate 31 0 @ [3]" "[1]"] p ev
    by blast
qed

subsection \<open>The order of the gates\<close>

text \<open>
  C5, as amended. The modifiers of the four gated functions run in the order in which
  the source lists them: the role check first (\<open>onlyProvider\<close> for \<open>submitDocument\<close> and
  \<open>searchKeywordInBatch\<close>, \<open>onlyOwner\<close> for \<open>openNewBatch\<close> and \<open>closeCurrentBatch\<close>), then the
  pause check, then, for the first two, the cooldown check, and only then the checks on
  the arguments and the batch. So a caller without the role gets the authorization
  error whether or not the contract is paused, a caller with the role gets the paused
  error on a paused contract, and a provider on a running contract inside the cooldown
  gets the cooldown error whatever the arguments are. A call that fails leaves the
  state as it was.
\<close>

theorem gate_order:
  "(\<not> isProvider s (msg_sender e) \<longrightarrow>
      submitDocument e i c s = Inl NotProvider \<and> searchKeywordInBatch e b k s = Inl NotProvider)
   \<and> (msg_sender e \<noteq> owner s \<longrightarrow>
      openNewBatch e s = Inl NotOwner \<and> closeCurrentBatch e s = Inl NotOwner)
   \<and> (isProvider s (msg_sender e) \<and> paused s \<longrightarrow>
      submitDocument e i c s = Inl PausedContract
      \<and> searchKeywordInBatch e b k s = Inl PausedContract)
   \<and> (msg_sender e = owner s \<and> paused s \<longrightarrow>
      openNewBatch e s = Inl PausedContract \<and> closeCurrentBatch e s = Inl PausedContract)
   \<and> (isProvider s (msg_sender e) \<and> \<not> paused s
        \<and> cooldownActive (block_timestamp e) (lastSubmissionTime s (msg_sender e))
             (cooldownSeconds s) \<longrightarrow>
      submitDocument e i c s = Inl CooldownActive)
   \<and> (isProvider s (msg_sender e) \<and> \<not> paused s
        \<and> cooldownActive (block_timestamp e) (lastDecryptionRequestTime s (msg_sender e))
             (cooldownSeconds s) \<longrightarrow>
      searchKeywordInBatch e b k s = Inl CooldownActive)
   \<and> (\<forall>f \<in> {submitDocument e i c, searchKeywordInBatch e b k, openNewBatch e,
              closeCurrentBatch e}.
        \<forall>err. f s = Inl err \<longrightarrow> transact f s = (s, Some err))"
proof -
  have 1: "submitDocument e i c s = Inl NotProvider
           \<and> searchKeywordInBatch e b k s = Inl NotProvider"
    if "\<not> isProvider s (msg_sender e)"
    using that by (simp add: submitDocument_def searchKeywordInBatch_def onlyProvider_def)
  have 2: "openNewBatch e s = Inl NotOwner \<and> closeCurrentBatch e s = Inl NotOwner"
    if "msg_sender e \<noteq> owner s"
    using that by (simp add: openNewBatch_def closeCurrentBatch_def onlyOwner_def)
  have 3: "submitDocument e i c s = Inl PausedContract
           \<and> searchKeywordInBatch e b k s = Inl PausedContract"
    if "isProvider s (msg_sender e) \<and> paused s"
    using that
    by (simp add: submitDocument_def searchKeywordInBatch_def onlyProvider_def whenNotPaused_def)
  have 4: "openNewBatch e s = Inl PausedContract \<and> closeCurrentBatch e s = Inl PausedContract"
    if "msg_sender e = owner s \<and> paused s"
    using that
    by (simp add: openNewBatch_def closeCurrentBatch_def onlyOwner_def whenNotPaused_def)
  have 5: "submitDocument e i c s = Inl CooldownActive"
    if "isProvider s (msg_sender e) \<and> \<not> paused s
        \<and> cooldownActive (block_timestamp e) (lastSubmissionTime s (msg_sender e))
             (cooldownSeconds s)"
    using that
    by (simp add: submitDocument_def onlyProvider_def whenNotPaused_def
        checkSubmissionCooldown_def checked_add_def cooldownActive_def)
  have 6: "searchKeywordInBatch e b k s = Inl CooldownActive"
    if "isProvider s (msg_sender e) \<and> \<not> paused s
        \<and> cooldownActive (block_timestamp e) (lastDecryptionRequestTime s (msg_sender e))
             (cooldownSeconds s)"
    using that
    by (simp add: searchKeywordInBatch_def onlyProvider_def whenNotPaused_def
        checkDecryptionCooldown_def checked_add_def cooldownActive_def)
  have 7: "\<forall>f \<in> {submitDocument e i c, searchKeywordInBatch e b k, openNewBatch e,
                 closeCurrentBatch e}.
        \<forall>err. f s = Inl err \<longrightarrow> transact f s = (s, Some err)"
    by (simp add: transact_def)
  show ?thesis using 1 2 3 4 5 6 7 by blast
qed

text \<open>
  Three callers: account 2, neither owner nor provider, and account 1, owner and
  provider, on the paused contract; and account 1 at time 10, inside both cooldowns of
  the running contract, with uninitialised handles and batch 0.
\<close>

theorem gate_order_witness:
  "submitDocument (sim_env 2 100 0) 0 0 sim_paused = Inl NotProvider
   \<and> searchKeywordInBatch (sim_env 2 100 0) 0 0 sim_paused = Inl NotProvider
   \<and> openNewBatch (sim_env 2 100 0) sim_paused = Inl NotOwner
   \<and> closeCurrentBatch (sim_env 2 100 0) sim_paused = Inl NotOwner
   \<and> transact (submitDocument (sim_env 2 100 0) 0 0) sim_paused = (sim_paused, Some NotProvider)
   \<and> submitDocument (sim_env 1 100 0) 0 0 sim_paused = Inl PausedContract
   \<and> searchKeywordInBatch (sim_env 1 100 0) 0 0 sim_paused = Inl PausedContract
   \<and> openNewBatch (sim_env 1 100 0) sim_paused = Inl PausedContract
   \<and> closeCurrentBatch (sim_env 1 100 0) sim_paused = Inl PausedContract
   \<and> submitDocument (sim_env 1 10 0) 0 0 sim_s3 = Inl CooldownActive
   \<and> searchKeywordInBatch (sim_env 1 10 0) 0 0 sim_s3 = Inl CooldownActive"
proof -
  have a: "\<not> isProvider sim_paused (msg_sender (sim_env 2 100 0))"
    "msg_sender (sim_env 2 100 0) \<noteq> owner sim_paused"
    by (simp_all add: sim_paused_eq sim_s0_eq sim_env_def)
  have b: "isProvider sim_paused (msg_sender (sim_env 1 100 0)) \<and> paused sim_paused"
    "msg_sender (sim_env 1 100 0) = owner sim_paused \<and> paused sim_paused"
    by (simp_all add: sim_paused_eq sim_s0_eq sim_env_def)
  have c: "isProvider sim_s3 (msg_sender (sim_env 1 10 0)) \<and> \<not> paused sim_s3
      \<and> cooldownActive (block_timestamp (sim_env 1 10 0))
           (lastSubmissionTime sim_s3 (msg_sender (sim_env 1 10 0))) (cooldownSeconds sim_s3)"
    "isProvider sim_s3 (msg_sender (sim_env 1 10 0)) \<and> \<not> paused sim_s3
      \<and> cooldownActive (block_timestamp (sim_env 1 10 0))
           (lastDecryptionRequestTime sim_s3 (msg_sender (sim_env 1 10 0))) (cooldownSeconds sim_s3)"
    by (simp_all add: sim_s3_eq sim_env_def cooldownActive_def)
  note A = gate_order [where s = sim_paused and e = "sim_env 2 100 0"
      and i = 0 and c = 0 and b = 0 and k = 0]
  note B = gate_order [where s = sim_paused and e = "sim_env 1 100 0"
      and i = 0 and c = 0 and b = 0 and k = 0]
  note C = gate_order [where s = sim_s3 and e = "sim_env 1 10 0"
      and i = 0 and c = 0 and b = 0 and k = 0]
  have A1: "submitDocument (sim_env 2 100 0) 0 0 sim_paused = Inl NotProvider"
    "searchKeywordInBatch (sim_env 2 100 0) 0 0 sim_paused = Inl NotProvider"
    "openNewBatch (sim_env 2 100 0) sim_paused = Inl NotOwner"
    "closeCurrentBatch (sim_env 2 100 0) sim_paused = Inl NotOwner"
    using A a by blast+
  have A2: "transact (submitDocument (sim_env 2 100 0) 0 0) sim_paused
            = (sim_paused, Some NotProvider)"
    using A A1(1) by blast
  have B1: "submitDocument (sim_env 1 100 0) 0 0 sim_paused = Inl PausedContract"
    "searchKeywordInBatch (sim_env 1 100 0) 0 0 sim_paused = Inl PausedContract"
    "openNewBatch (sim_env 1 100 0) sim_paused = Inl PausedContract"
    "closeCurrentBatch (sim_env 1 100 0) sim_paused = Inl PausedContract"
    using B b by blast+
  have C1: "submitDocument (sim_env 1 10 0) 0 0 sim_s3 = Inl CooldownActive"
    "searchKeywordInBatch (sim_env 1 10 0) 0 0 sim_s3 = Inl CooldownActive"
    using C c by blast+
  show ?thesis using A1 A2 B1 C1 by simp
qed

text \<open>
  The claim as it stands fails on the paused contract: account 2, which is not a
  provider, gets the authorization error, not the paused error.
\<close>

theorem paused_nonprovider_NotProvider:
  "paused sim_paused \<and> \<not> isProvider sim_paused 2
   \<and> submitDocument (sim_env 2 100 0) 11 (sim_asEuint32 5) sim_paused = Inl NotProvider
   \<and> classify NotProvider = AuthorizationError
   \<and> classify PausedContract = LifecycleError"
  by (simp add: sim_paused_eq sim_s0_eq submitDocument_def onlyProvider_def sim_env_def)

subsection \<open>Searching an empty batch\<close>

text \<open>
  C6. A call of \<open>searchKeywordInBatch\<close> on a batch without documents never succeeds. When
  the caller is a provider, the contract is running, the cooldown has passed, the
  keyword is initialised and the batch exists and is open, it reverts with the reason
  string of the empty batch, a validation error. In every case the state after the call
  is the state before it: no context is stored and no request goes to the oracle.
\<close>

theorem search_empty_batch:
  assumes "batchDocuments s b = []"
  shows "(\<exists>err. searchKeywordInBatch e b kw s = Inl err)
       \<and> (isProvider s (msg_sender e) \<and> \<not> paused s
            \<and> unat (lastDecryptionRequestTime s (msg_sender e)) + unat (cooldownSeconds s) < 2 ^ 256
            \<and> \<not> block_timestamp e < lastDecryptionRequestTime s (msg_sender e) + cooldownSeconds s
            \<and> FHE_isInitialized e kw
            \<and> b \<noteq> 0 \<and> b \<le> currentBatchId s \<and> open_Batch (batches s b) \<longrightarrow>
          searchKeywordInBatch e b kw s = Inl (Error ''No documents in batch''))
       \<and> classify (Error ''No documents in batch'') = ValidationError
       \<and> fst (transact (searchKeywordInBatch e b kw) s) = s
       \<and> decryptionContexts (fst (transact (searchKeywordInBatch e b kw) s)) = decryptionContexts s
       \<and> oracleRequests (fst (transact (searchKeywordInBatch e b kw) s)) = oracleRequests s"
proof -
  have 1: "\<exists>err. searchKeywordInBatch e b kw s = Inl err"
    using assms
    by (auto simp: searchKeywordInBatch_def gate_defs checked_add_def split: sum.splits)
  have 2: "searchKeywordInBatch e b kw s = Inl (Error ''No documents in batch'')"
    if "isProvider s (msg_sender e) \<and> \<not> paused s
            \<and> unat (lastDecryptionRequestTime s (msg_sender e)) + unat (cooldownSeconds s) < 2 ^ 256
            \<and> \<not> block_timestamp e < lastDecryptionRequestTime s (msg_sender e) + cooldownSeconds s
            \<and> FHE_isInitialized e kw
            \<and> b \<noteq> 0 \<and> b \<le> currentBatchId s \<and> open_Batch (batches s b)"
    using that assms
    by (auto simp: searchKeywordInBatch_def gate_defs checked_add_def)
  have 3: "fst (transact (searchKeywordInBatch e b kw) s) = s"
    using 1 by (auto simp: transact_def)
  show ?thesis using 1 2 3 by simp
qed

text \<open>The owner searches batch 1 of the fresh contract, open and empty, for 5 at time 100.\<close>

theorem search_empty_batch_witness:
  "batchDocuments sim_s0 1 = []
   \<and> open_Batch (batches sim_s0 1)
   \<and> searchKeywordInBatch (sim_env 1 100 7) 1 (sim_asEuint32 5) sim_s0
       = Inl (Error ''No documents in batch'')
   \<and> fst (transact (searchKeywordInBatch (sim_env 1 100 7) 1 (sim_asEuint32 5)) sim_s0) = sim_s0"
proof -
  let ?e = "sim_env 1 100 7"
  have empty: "batchDocuments sim_s0 1 = []"
    by (simp add: sim_s0_eq)
  have pre: "isProvider sim_s0 (msg_sender ?e) \<and> \<not> paused sim_s0
      \<and> unat (lastDecryptionRequestTime sim_s0 (msg_sender ?e)) + unat (cooldownSeconds sim_s0)
           < 2 ^ 256
      \<and> \<not> block_timestamp ?e
           < lastDecryptionRequestTime sim_s0 (msg_sender ?e) + cooldownSeconds sim_s0
      \<and> FHE_isInitialized ?e (sim_asEuint32 5)
      \<and> (1 :: uint256) \<noteq> 0 \<and> 1 \<le> currentBatchId sim_s0 \<and> open_Batch (batches sim_s0 1)"
    by (simp add: sim_s0_eq sim_env_def sim_asEuint32_def)
  show ?thesis
    using search_empty_batch [OF empty, of ?e "sim_asEuint32 5"] empty pre by blast
qed

subsection \<open>Opening a batch\<close>

text \<open>
  C7. A successful \<open>openNewBatch\<close> advances \<open>currentBatchId\<close> by one, writes the entry of
  the new batch, open, and records the event; nothing else changes. The new id differs
  from the previous one, so the entry of the previous current batch is untouched: if it
  was open it still is, next to the new one.
\<close>

theorem openNewBatch_frame:
  assumes "openNewBatch e s = Inr s'"
  shows "s' = s\<lparr> currentBatchId := currentBatchId s + 1,
                batches := (batches s)(currentBatchId s + 1 :=
                   \<lparr> id_Batch = currentBatchId s + 1, open_Batch = True \<rparr>),
                events := events s @ [BatchOpened (currentBatchId s + 1)] \<rparr>
       \<and> currentBatchId s' \<noteq> currentBatchId s
       \<and> batches s' (currentBatchId s) = batches s (currentBatchId s)
       \<and> open_Batch (batches s' (currentBatchId s'))
       \<and> (open_Batch (batches s (currentBatchId s)) \<longrightarrow>
            open_Batch (batches s' (currentBatchId s)) \<and> open_Batch (batches s' (currentBatchId s')))"
proof -
  have eq: "s' = s\<lparr> currentBatchId := currentBatchId s + 1,
                batches := (batches s)(currentBatchId s + 1 :=
                   \<lparr> id_Batch = currentBatchId s + 1, open_Batch = True \<rparr>),
                events := events s @ [BatchOpened (currentBatchId s + 1)] \<rparr>"
    using assms
    by (auto simp: openNewBatch_def gate_defs step_defs Let_def split: if_splits)
  show ?thesis unfolding eq by simp
qed

text \<open>The owner opens batch 2 on the fresh contract; batches 1 and 2 are then both open.\<close>

theorem openNewBatch_frame_witness:
  "openNewBatch (sim_env 1 100 0) sim_s0 = Inr (fst (transact (openNewBatch (sim_env 1 100 0)) sim_s0))
   \<and> open_Batch (batches sim_s0 (currentBatchId sim_s0))
   \<and> currentBatchId sim_s0 = 1
   \<and> currentBatchId (fst (transact (openNewBatch (sim_env 1 100 0)) sim_s0)) = 2
   \<and> open_Batch (batches (fst (transact (openNewBatch (sim_env 1 100 0)) sim_s0)) 1)
   \<and> open_Batch (batches (fst (transact (openNewBatch (sim_env 1 100 0)) sim_s0)) 2)"
proof -
  let ?s' = "fst (transact (openNewBatch (sim_env 1 100 0)) sim_s0)"
  have run: "openNewBatch (sim_env 1 100 0) sim_s0 = Inr ?s'"
    by (simp add: transact_def sim_s0_eq openNewBatch_def gate_defs step_defs sim_env_def Let_def)
  have was: "open_Batch (batches sim_s0 (currentBatchId sim_s0))" "currentBatchId sim_s0 = 1"
    by (simp_all add: sim_s0_eq)
  have now: "currentBatchId ?s' = 2"
    by (subst conjunct1 [OF openNewBatch_frame [OF run]]) (simp add: was(2))
  show ?thesis
    using openNewBatch_frame [OF run] run was now by simp
qed

subsection \<open>The cooldown\<close>

text \<open>
  C8, as amended. For a provider on a running contract, a call of \<open>submitDocument\<close>
  (under the submission cooldown) or \<open>searchKeywordInBatch\<close> (under the decryption
  cooldown) at a time before \<open>last + cooldownSeconds\<close> reverts with \<open>CooldownActive\<close> when
  that sum fits in 256 bits, and with the arithmetic panic when it does not. Whoever
  the caller is, a call before that time does not succeed. A call that succeeds sets
  the caller's timestamp to the time of the call together with its effect (the document
  appended, the request placed); a call that fails leaves the state, and with it every
  timestamp, as it was.
\<close>

theorem cooldown_gate:
  "(isProvider s (msg_sender e) \<and> \<not> paused s
      \<and> cooldownActive (block_timestamp e) (lastSubmissionTime s (msg_sender e))
           (cooldownSeconds s) \<longrightarrow>
        submitDocument e i c s = Inl CooldownActive)
   \<and> (isProvider s (msg_sender e) \<and> \<not> paused s
      \<and> cooldownActive (block_timestamp e) (lastDecryptionRequestTime s (msg_sender e))
           (cooldownSeconds s) \<longrightarrow>
        searchKeywordInBatch e b k s = Inl CooldownActive)
   \<and> (isProvider s (msg_sender e) \<and> \<not> paused s
      \<and> 2 ^ 256 \<le> unat (lastSubmissionTime s (msg_sender e)) + unat (cooldownSeconds s) \<longrightarrow>
        submitDocument e i c s = Inl (Panic 17))
   \<and> (isProvider s (msg_sender e) \<and> \<not> paused s
      \<and> 2 ^ 256 \<le> unat (lastDecryptionRequestTime s (msg_sender e)) + unat (cooldownSeconds s) \<longrightarrow>
        searchKeywordInBatch e b k s = Inl (Panic 17))
   \<and> (unat (block_timestamp e)
        < unat (lastSubmissionTime s (msg_sender e)) + unat (cooldownSeconds s) \<longrightarrow>
        (\<exists>err. submitDocument e i c s = Inl err))
   \<and> (unat (block_timestamp e)
        < unat (lastDecryptionRequestTime s (msg_sender e)) + unat (cooldownSeconds s) \<longrightarrow>
        (\<exists>err. searchKeywordInBatch e b k s = Inl err))
   \<and> (\<forall>s'. submitDocument e i c s = Inr s' \<longrightarrow>
        lastSubmissionTime s' = (lastSubmissionTime s)(msg_sender e := block_timestamp e)
        \<and> batchDocuments s' (currentBatchId s) =
            batchDocuments s (currentBatchId s) @ [\<lparr> encryptedId = i, encryptedContent = c \<rparr>])
   \<and> (\<forall>s'. searchKeywordInBatch e b k s = Inr s' \<longrightarrow>
        lastDecryptionRequestTime s' =
          (lastDecryptionRequestTime s)(msg_sender e := block_timestamp e)
        \<and> length (oracleRequests s') = Suc (length (oracleRequests s)))
   \<and> (\<forall>err. submitDocument e i c s = Inl err \<longrightarrow>
        fst (transact (submitDocument e i c) s) = s)
   \<and> (\<forall>err. searchKeywordInBatch e b k s = Inl err \<longrightarrow>
        fst (transact (searchKeywordInBatch e b k) s) = s)"
proof -
  have 1: "submitDocument e i c s = Inl CooldownActive"
    if "isProvider s (msg_sender e) \<and> \<not> paused s
        \<and> cooldownActive (block_timestamp e) (lastSubmissionTime s (msg_sender e))
             (cooldownSeconds s)"
    using that
    by (simp add: submitDocument_def onlyProvider_def whenNotPaused_def
        checkSubmissionCooldown_def checked_add_def cooldownActive_def)
  have 2: "searchKeywordInBatch e b k s = Inl CooldownActive"
    if "isProvider s (msg_sender e) \<and> \<not> paused s
        \<and> cooldownActive (block_timestamp e) (lastDecryptionRequestTime s (msg_sender e))
             (cooldownSeconds s)"
    using that
    by (simp add: searchKeywordInBatch_def onlyProvider_def whenNotPaused_def
        checkDecryptionCooldown_def checked_add_def cooldownActive_def)
  have 3: "submitDocument e i c s = Inl (Panic 17)"
    if "isProvider s (msg_sender e) \<and> \<not> paused s
      \<and> 2 ^ 256 \<le> unat (lastSubmissionTime s (msg_sender e)) + unat (cooldownSeconds s)"
    using that
    by (simp add: submitDocument_def onlyProvider_def whenNotPaused_def
        checkSubmissionCooldown_def checked_add_def)
  have 4: "searchKeywordInBatch e b k s = Inl (Panic 17)"
    if "isProvider s (msg_sender e) \<and> \<not> paused s
      \<and> 2 ^ 256 \<le> unat (lastDecryptionRequestTime s (msg_sender e)) + unat (cooldownSeconds s)"
    using that
    by (simp add: searchKeywordInBatch_def onlyProvider_def whenNotPaused_def
        checkDecryptionCooldown_def checked_add_def)
  have lt: "x < a + b" if "unat x < unat a + unat b" "unat a + unat b < 2 ^ 256"
    for x a b :: uint256
    using that by (simp add: word_less_nat_alt unat_word_ariths)
  have 5: "\<exists>err. submitDocument e i c s = Inl err"
    if "unat (block_timestamp e)
        < unat (lastSubmissionTime s (msg_sender e)) + unat (cooldownSeconds s)"
    using lt [OF that]
    by (auto simp: submitDocument_def onlyProvider_def whenNotPaused_def
        checkSubmissionCooldown_def checked_add_def)
  have 6: "\<exists>err. searchKeywordInBatch e b k s = Inl err"
    if "unat (block_timestamp e)
        < unat (lastDecryptionRequestTime s (msg_sender e)) + unat (cooldownSeconds s)"
    using lt [OF that]
    by (auto simp: searchKeywordInBatch_def onlyProvider_def whenNotPaused_def
        checkDecryptionCooldown_def checked_add_def)
  have 7: "lastSubmissionTime s' = (lastSubmissionTime s)(msg_sender e := block_timestamp e)
        \<and> batchDocuments s' (currentBatchId s) =
            batchDocuments s (currentBatchId s) @ [\<lparr> encryptedId = i, encryptedContent = c \<rparr>]"
    if "submitDocument e i c s = Inr s'" for s'
    by (subst (1 2) submit_success [OF that]) simp
  have 8: "lastDecryptionRequestTime s' =
             (lastDecryptionRequestTime s)(msg_sender e := block_timestamp e)
        \<and> length (oracleRequests s') = Suc (length (oracleRequests s))"
    if "searchKeywordInBatch e b k s = Inr s'" for s'
    by (subst (1 2) search_success [OF that]) simp
  have 9: "fst (transact f s) = s" if "f s = Inl err" for f :: "state \<Rightarrow> error + state" and err
    using that by (simp add: transact_def)
  show ?thesis using 1 2 3 4 5 6 7 8 9 by blast
qed

text \<open>
  Account 1 submitted last at time 300 and has not searched, the cooldown is 30: at
  time 310 a submission and at time 10 a search are rejected with \<open>CooldownActive\<close>, the
  state unchanged; at time 400 a submission succeeds and sets the timestamp to 400.
\<close>

theorem cooldown_gate_witness:
  "submitDocument (sim_env 1 310 0) 14 (sim_asEuint32 5) sim_s3 = Inl CooldownActive
   \<and> fst (transact (submitDocument (sim_env 1 310 0) 14 (sim_asEuint32 5)) sim_s3) = sim_s3
   \<and> searchKeywordInBatch (sim_env 1 10 7) 1 (sim_asEuint32 5) sim_s3 = Inl CooldownActive
   \<and> fst (transact (searchKeywordInBatch (sim_env 1 10 7) 1 (sim_asEuint32 5)) sim_s3) = sim_s3
   \<and> lastSubmissionTime
        (fst (transact (submitDocument (sim_env 1 400 0) 14 (sim_asEuint32 5)) sim_s3)) 1 = 400
   \<and> lastDecryptionRequestTime
        (fst (transact (searchKeywordInBatch (sim_env 1 400 7) 1 (sim_asEuint32 5)) sim_s3)) 1 = 400
   \<and> submitDocument (sim_env 1 400 0) 14 (sim_asEuint32 5) sim_s3max = Inl (Panic 17)"
proof -
  let ?h = "sim_asEuint32 5"
  have a: "isProvider sim_s3 (msg_sender (sim_env 1 310 0)) \<and> \<not> paused sim_s3
      \<and> cooldownActive (block_timestamp (sim_env 1 310 0))
           (lastSubmissionTime sim_s3 (msg_sender (sim_env 1 310 0))) (cooldownSeconds sim_s3)"
    by (simp add: sim_s3_eq sim_env_def cooldownActive_def)
  have b: "isProvider sim_s3 (msg_sender (sim_env 1 10 7)) \<and> \<not> paused sim_s3
      \<and> cooldownActive (block_timestamp (sim_env 1 10 7))
           (lastDecryptionRequestTime sim_s3 (msg_sender (sim_env 1 10 7))) (cooldownSeconds sim_s3)"
    by (simp add: sim_s3_eq sim_env_def cooldownActive_def)
  have c: "submitDocument (sim_env 1 400 0) 14 ?h sim_s3 =
      Inr (fst (transact (submitDocument (sim_env 1 400 0) 14 ?h) sim_s3))"
    by (simp add: transact_def sim_s3_eq submitDocument_def gate_defs step_defs sim_env_def
        sim_asEuint32_def Let_def)
  have d: "searchKeywordInBatch (sim_env 1 400 7) 1 ?h sim_s3 =
      Inr (fst (transact (searchKeywordInBatch (sim_env 1 400 7) 1 ?h) sim_s3))"
    by (simp add: sim_search5 transact_def)
  have o: "isProvider sim_s3max (msg_sender (sim_env 1 400 0)) \<and> \<not> paused sim_s3max
      \<and> 2 ^ 256 \<le> unat (lastSubmissionTime sim_s3max (msg_sender (sim_env 1 400 0)))
                    + unat (cooldownSeconds sim_s3max)"
    by (simp add: sim_s3max_eq sim_s3_eq sim_env_def)
  note A = cooldown_gate [where s = sim_s3 and e = "sim_env 1 310 0" and i = 14 and c = ?h
      and b = 1 and k = ?h]
  note B = cooldown_gate [where s = sim_s3 and e = "sim_env 1 10 7" and i = 14 and c = ?h
      and b = 1 and k = ?h]
  note C = cooldown_gate [where s = sim_s3 and e = "sim_env 1 400 0" and i = 14 and c = ?h
      and b = 1 and k = ?h]
  note D = cooldown_gate [where s = sim_s3 and e = "sim_env 1 400 7" and i = 14 and c = ?h
      and b = 1 and k = ?h]
  note E = cooldown_gate [where s = sim_s3max and e = "sim_env 1 400 0" and i = 14 and c = ?h
      and b = 1 and k = ?h]
  have A1: "submitDocument (sim_env 1 310 0) 14 ?h sim_s3 = Inl CooldownActive"
    using A a by blast
  have A2: "fst (transact (submitDocument (sim_env 1 310 0) 14 ?h) sim_s3) = sim_s3"
    using A A1 by blast
  have B1: "searchKeywordInBatch (sim_env 1 10 7) 1 ?h sim_s3 = Inl CooldownActive"
    using B b by blast
  have B2: "fst (transact (searchKeywordInBatch (sim_env 1 10 7) 1 ?h) sim_s3) = sim_s3"
    using B B1 by blast
  have C1: "lastSubmissionTime (fst (transact (submitDocument (sim_env 1 400 0) 14 ?h) sim_s3))
      = (lastSubmissionTime sim_s3)(msg_sender (sim_env 1 400 0) := block_timestamp (sim_env 1 400 0))"
    using C c by blast
  have D1: "lastDecryptionRequestTime
        (fst (transact (searchKeywordInBatch (sim_env 1 400 7) 1 ?h) sim_s3))
      = (lastDecryptionRequestTime sim_s3)
          (msg_sender (sim_env 1 400 7) := block_timestamp (sim_env 1 400 7))"
    using D d by blast
  have E1: "submitDocument (sim_env 1 400 0) 14 ?h sim_s3max = Inl (Panic 17)"
    using E o by blast
  have C2: "lastSubmissionTime
      (fst (transact (submitDocument (sim_env 1 400 0) 14 ?h) sim_s3)) 1 = 400"
    unfolding C1 by (simp add: sim_env_def)
  have D2: "lastDecryptionRequestTime
      (fst (transact (searchKeywordInBatch (sim_env 1 400 7) 1 ?h) sim_s3)) 1 = 400"
    unfolding D1 by (simp add: sim_env_def)
  show ?thesis
    using A1 A2 B1 B2 C2 D2 E1 by blast
qed

text \<open>
  The claim as it stands fails once the owner has set the cooldown to the largest
  \<^verbatim>\<open>uint256\<close>: account 1, a provider on the running contract, submits at time 400, before
  its last submission plus the cooldown, and the call reverts with the arithmetic
  panic, which is not the rate-limit error.
\<close>

theorem cooldown_overflow_Panic:
  "isProvider sim_s3max 1 \<and> \<not> paused sim_s3max
   \<and> unat (block_timestamp (sim_env 1 400 0))
        < unat (lastSubmissionTime sim_s3max 1) + unat (cooldownSeconds sim_s3max)
   \<and> submitDocument (sim_env 1 400 0) 14 (sim_asEuint32 5) sim_s3max = Inl (Panic 17)
   \<and> classify (Panic 17) \<noteq> RateLimitError"
  by (simp add: sim_s3max_eq sim_s3_eq submitDocument_def gate_defs step_defs sim_env_def)

subsection \<open>Events of the administrative functions\<close>

text \<open>
  C9, as amended. A successful \<open>transferOwnership\<close>, \<open>pause\<close>, \<open>unpause\<close> or
  \<open>setCooldownSeconds\<close> records its event: the previous and the new owner, the account
  that paused or unpaused, the previous and the new cooldown. A successful \<open>addProvider\<close>
  records \<open>ProviderAdded\<close> when the account was not a provider, and \<open>removeProvider\<close> records
  \<open>ProviderRemoved\<close> when it was one; otherwise the call succeeds without an event and
  without any change of the state.
\<close>

theorem admin_events:
  "(\<forall>s'. transferOwnership e newOwner s = Inr s' \<longrightarrow>
       events s' = events s @ [OwnershipTransferred (owner s) newOwner] \<and> owner s' = newOwner)
   \<and> (\<forall>s'. pause e s = Inr s' \<longrightarrow>
       events s' = events s @ [Paused (msg_sender e)] \<and> \<not> paused s \<and> paused s')
   \<and> (\<forall>s'. unpause e s = Inr s' \<longrightarrow>
       events s' = events s @ [Unpaused (msg_sender e)] \<and> paused s \<and> \<not> paused s')
   \<and> (\<forall>s'. setCooldownSeconds e n s = Inr s' \<longrightarrow>
       events s' = events s @ [CooldownSecondsChanged (cooldownSeconds s) n]
       \<and> cooldownSeconds s' = n)
   \<and> (\<forall>s'. addProvider e p s = Inr s' \<longrightarrow>
       (if isProvider s p then s' = s
        else events s' = events s @ [ProviderAdded p] \<and> isProvider s' p))
   \<and> (\<forall>s'. removeProvider e p s = Inr s' \<longrightarrow>
       (if isProvider s p then events s' = events s @ [ProviderRemoved p] \<and> \<not> isProvider s' p
        else s' = s))"
proof -
  have 1: "events s' = events s @ [OwnershipTransferred (owner s) newOwner] \<and> owner s' = newOwner"
    if "transferOwnership e newOwner s = Inr s'" for s'
    using that by (auto simp: transferOwnership_def onlyOwner_def emit_def split: if_splits)
  have 2: "events s' = events s @ [Paused (msg_sender e)] \<and> \<not> paused s \<and> paused s'"
    if "pause e s = Inr s'" for s'
    using that by (auto simp: pause_def onlyOwner_def whenNotPaused_def emit_def split: if_splits)
  have 3: "events s' = events s @ [Unpaused (msg_sender e)] \<and> paused s \<and> \<not> paused s'"
    if "unpause e s = Inr s'" for s'
    using that by (auto simp: unpause_def onlyOwner_def emit_def split: if_splits)
  have 4: "events s' = events s @ [CooldownSecondsChanged (cooldownSeconds s) n]
           \<and> cooldownSeconds s' = n"
    if "setCooldownSeconds e n s = Inr s'" for s'
    using that by (auto simp: setCooldownSeconds_def onlyOwner_def emit_def split: if_splits)
  have 5: "if isProvider s p then s' = s
        else events s' = events s @ [ProviderAdded p] \<and> isProvider s' p"
    if "addProvider e p s = Inr s'" for s'
    using that by (auto simp: addProvider_def onlyOwner_def emit_def split: if_splits)
  have 6: "if isProvider s p then events s' = events s @ [ProviderRemoved p] \<and> \<not> isProvider s' p
        else s' = s"
    if "removeProvider e p s = Inr s'" for s'
    using that by (auto simp: removeProvider_def onlyOwner_def emit_def split: if_splits)
  show ?thesis using 1 2 3 4 5 6 by blast
qed

text \<open>
  The owner, account 1, on the fresh contract: each of the six functions once with an
  effect (unpausing the paused contract), then \<open>addProvider\<close> for account 1, already a
  provider, and \<open>removeProvider\<close> for account 2, which is none.
\<close>

theorem admin_events_witness:
  "events (fst (transact (transferOwnership (sim_env 1 50 0) 2) sim_s0))
     = events sim_s0 @ [OwnershipTransferred 1 2]
   \<and> events (fst (transact (pause (sim_env 1 50 0)) sim_s0)) = events sim_s0 @ [Paused 1]
   \<and> events (fst (transact (unpause (sim_env 1 60 0)) sim_paused))
       = events sim_paused @ [Unpaused 1]
   \<and> events (fst (transact (setCooldownSeconds (sim_env 1 50 0) 60) sim_s0))
       = events sim_s0 @ [CooldownSecondsChanged 30 60]
   \<and> events (fst (transact (addProvider (sim_env 1 50 0) 2) sim_s0))
       = events sim_s0 @ [ProviderAdded 2]
   \<and> events (fst (transact (removeProvider (sim_env 1 50 0) 1) sim_s0))
       = events sim_s0 @ [ProviderRemoved 1]
   \<and> fst (transact (addProvider (sim_env 1 50 0) 1) sim_s0) = sim_s0
   \<and> fst (transact (removeProvider (sim_env 1 50 0) 2) sim_s0) = sim_s0"
proof -
  let ?e = "sim_env 1 50 0"
  have ok: "f s = Inr (fst (transact f s))" if "snd (transact f s) = None"
    for f :: "state \<Rightarrow> error + state" and s
    using that by (cases "f s") (simp_all add: transact_def)
  have r1: "transferOwnership ?e 2 sim_s0 = Inr (fst (transact (transferOwnership ?e 2) sim_s0))"
    by (rule ok) (simp add: transact_def sim_s0_eq transferOwnership_def onlyOwner_def sim_env_def)
  have r2: "pause ?e sim_s0 = Inr (fst (transact (pause ?e) sim_s0))"
    by (rule ok)
      (simp add: transact_def sim_s0_eq pause_def onlyOwner_def whenNotPaused_def sim_env_def)
  have r3: "unpause (sim_env 1 60 0) sim_paused
      = Inr (fst (transact (unpause (sim_env 1 60 0)) sim_paused))"
    by (rule ok)
      (simp add: transact_def sim_paused_eq sim_s0_eq unpause_def onlyOwner_def sim_env_def)
  have r4: "setCooldownSeconds ?e 60 sim_s0
      = Inr (fst (transact (setCooldownSeconds ?e 60) sim_s0))"
    by (rule ok)
      (simp add: transact_def sim_s0_eq setCooldownSeconds_def onlyOwner_def sim_env_def)
  have r5: "addProvider ?e p sim_s0 = Inr (fst (transact (addProvider ?e p) sim_s0))" for p
    by (rule ok) (simp add: transact_def sim_s0_eq addProvider_def onlyOwner_def sim_env_def)
  have r6: "removeProvider ?e p sim_s0 = Inr (fst (transact (removeProvider ?e p) sim_s0))" for p
    by (rule ok) (simp add: transact_def sim_s0_eq removeProvider_def onlyOwner_def sim_env_def)
  have st: "owner sim_s0 = 1" "cooldownSeconds sim_s0 = 30"
    "isProvider sim_s0 1" "\<not> isProvider sim_s0 2"
    "msg_sender ?e = 1" "msg_sender (sim_env 1 60 0) = 1"
    by (simp_all add: sim_s0_eq sim_env_def)
  note T = admin_events [where s = sim_s0 and e = ?e and newOwner = 2 and n = 60]
  note U = admin_events [where s = sim_paused and e = "sim_env 1 60 0"]
  have c1: "events (fst (transact (transferOwnership ?e 2) sim_s0))
      = events sim_s0 @ [OwnershipTransferred 1 2]"
    using T [where p = 2] r1 st(1) by metis
  have c2: "events (fst (transact (pause ?e) sim_s0)) = events sim_s0 @ [Paused 1]"
    using T [where p = 2] r2 st(5) by metis
  have c3: "events (fst (transact (unpause (sim_env 1 60 0)) sim_paused))
      = events sim_paused @ [Unpaused 1]"
    using U [where p = 2] r3 st(6) by metis
  have c4: "events (fst (transact (setCooldownSeconds ?e 60) sim_s0))
      = events sim_s0 @ [CooldownSecondsChanged 30 60]"
    using T [where p = 2] r4 st(2) by metis
  have c5: "events (fst (transact (addProvider ?e 2) sim_s0)) = events sim_s0 @ [ProviderAdded 2]"
    using T [where p = 2] r5 [of 2] st(4) by metis
  have c6: "events (fst (transact (removeProvider ?e 1) sim_s0))
      = events sim_s0 @ [ProviderRemoved 1]"
    using T [where p = 1] r6 [of 1] st(3) by metis
  have c7: "fst (transact (addProvider ?e 1) sim_s0) = sim_s0"
    using T [where p = 1] r5 [of 1] st(3) by metis
  have c8: "fst (transact (removeProvider ?e 2) sim_s0) = sim_s0"
    using T [where p = 2] r6 [of 2] st(4) by metis
  show ?thesis using c1 c2 c3 c4 c5 c6 c7 c8 by blast
qed

text \<open>
  The claim as it stands fails on the fresh contract: the owner adds account 1, which
  the constructor has made a provider, and removes account 2, which is none; both calls
  succeed and record no event.
\<close>

theorem addProvider_existing_silent:
  "isProvider sim_s0 1 \<and> \<not> isProvider sim_s0 2
   \<and> addProvider (sim_env 1 50 0) 1 sim_s0 = Inr sim_s0
   \<and> events (fst (transact (addProvider (sim_env 1 50 0) 1) sim_s0)) = events sim_s0
   \<and> removeProvider (sim_env 1 50 0) 2 sim_s0 = Inr sim_s0
   \<and> events (fst (transact (removeProvider (sim_env 1 50 0) 2) sim_s0)) = events sim_s0"
  by (simp add: sim_s0_eq addProvider_def removeProvider_def onlyOwner_def sim_env_def
      transact_def)

subsection \<open>Initialisation\<close>

text \<open>
  C10. The constructor makes the deployer the owner and a provider, sets the cooldown
  to 30 seconds, sets the current batch to 1 and opens it. The deployer can then submit
  a document without having been added as a provider: from time 30 on, with two
  initialised handles, \<open>submitDocument\<close> succeeds on the fresh contract.
\<close>

theorem constructor_initial:
  "owner (constructor e) = msg_sender e
   \<and> isProvider (constructor e) (msg_sender e)
   \<and> cooldownSeconds (constructor e) = 30 \<and> 0 < cooldownSeconds (constructor e)
   \<and> currentBatchId (constructor e) = 1
   \<and> batches (constructor e) 1 = \<lparr> id_Batch = 1, open_Batch = True \<rparr>
   \<and> events (constructor e) = [ProviderAdded (msg_sender e), BatchOpened 1]
   \<and> (msg_sender e' = msg_sender e \<and> 30 \<le> block_timestamp e'
        \<and> FHE_isInitialized e' i \<and> FHE_isInitialized e' c \<longrightarrow>
      submitDocument e' i c (constructor e) =
        Inr ((constructor e)\<lparr>
          batchDocuments := (batchDocuments (constructor e))(1 :=
             [\<lparr> encryptedId = i, encryptedContent = c \<rparr>]),
          lastSubmissionTime :=
             (lastSubmissionTime (constructor e))(msg_sender e := block_timestamp e'),
          events := [ProviderAdded (msg_sender e), BatchOpened 1,
                     DocumentSubmitted (msg_sender e) 1 i] \<rparr>))"
proof -
  have c: "constructor e =
     \<lparr> owner = msg_sender e, isProvider = (\<lambda>_. False)(msg_sender e := True), paused = False,
       cooldownSeconds = 30,
       lastSubmissionTime = (\<lambda>_. 0), lastDecryptionRequestTime = (\<lambda>_. 0),
       currentBatchId = 1,
       batches = (\<lambda>_. \<lparr> id_Batch = 0, open_Batch = False \<rparr>)
                   (1 := \<lparr> id_Batch = 1, open_Batch = True \<rparr>),
       batchDocuments = (\<lambda>_. []),
       decryptionContexts = (\<lambda>_. \<lparr> batchId = 0, stateHash = 0, processed = False \<rparr>),
       events = [ProviderAdded (msg_sender e), BatchOpened 1], oracleRequests = [] \<rparr>"
    by (simp add: constructor_def zero_state_def step_defs Let_def)
  have sub: "submitDocument e' i c (constructor e) =
        Inr ((constructor e)\<lparr>
          batchDocuments := (batchDocuments (constructor e))(1 :=
             [\<lparr> encryptedId = i, encryptedContent = c \<rparr>]),
          lastSubmissionTime :=
             (lastSubmissionTime (constructor e))(msg_sender e := block_timestamp e'),
          events := [ProviderAdded (msg_sender e), BatchOpened 1,
                     DocumentSubmitted (msg_sender e) 1 i] \<rparr>)"
    if "msg_sender e' = msg_sender e \<and> 30 \<le> block_timestamp e'
        \<and> FHE_isInitialized e' i \<and> FHE_isInitialized e' c"
    using that unfolding c
    by (simp add: submitDocument_def gate_defs step_defs Let_def not_less)
  show ?thesis using sub by (simp add: c)
qed

text \<open>Account 1 deploys the contract and submits a document at time 100.\<close>

theorem constructor_initial_witness:
  "owner (constructor (sim_env 1 0 0)) = 1
   \<and> isProvider (constructor (sim_env 1 0 0)) 1
   \<and> cooldownSeconds (constructor (sim_env 1 0 0)) = 30
   \<and> open_Batch (batches (constructor (sim_env 1 0 0)) 1)
   \<and> batchDocuments (fst (transact (submitDocument (sim_env 1 100 0) 11 (sim_asEuint32 5))
        (constructor (sim_env 1 0 0)))) 1
       = [\<lparr> encryptedId = 11, encryptedContent = sim_asEuint32 5 \<rparr>]"
proof -
  let ?e = "sim_env 1 0 0" and ?e' = "sim_env 1 100 0"
  have pre: "msg_sender ?e' = msg_sender ?e \<and> 30 \<le> block_timestamp ?e'
      \<and> FHE_isInitialized ?e' 11 \<and> FHE_isInitialized ?e' (sim_asEuint32 5)"
    by (simp add: sim_env_def sim_asEuint32_def)
  have me: "msg_sender ?e = 1"
    by (simp add: sim_env_def)
  note I = constructor_initial [where e = ?e and e' = ?e' and i = 11 and c = "sim_asEuint32 5"]
  have sub: "submitDocument ?e' 11 (sim_asEuint32 5) (constructor ?e) =
        Inr ((constructor ?e)\<lparr>
          batchDocuments := (batchDocuments (constructor ?e))(1 :=
             [\<lparr> encryptedId = 11, encryptedContent = sim_asEuint32 5 \<rparr>]),
          lastSubmissionTime :=
             (lastSubmissionTime (constructor ?e))(msg_sender ?e := block_timestamp ?e'),
          events := [ProviderAdded (msg_sender ?e), BatchOpened 1,
                     DocumentSubmitted (msg_sender ?e) 1 11] \<rparr>)"
    using I pre by blast
  have docs: "batchDocuments (fst (transact (submitDocument ?e' 11 (sim_asEuint32 5))
        (constructor ?e))) 1 = [\<lparr> encryptedId = 11, encryptedContent = sim_asEuint32 5 \<rparr>]"
    by (simp add: transact_def sub)
  have b1: "open_Batch (batches (constructor ?e) 1)"
    using I by simp
  show ?thesis using I me b1 docs by simp
qed

end
